theory Spec2Isabelle
  imports Complex_Main "HOL-Library.Multiset"
begin

section \<open>Scans, raw signal arrays and precursor information of ms\_deisotope\<close>

text \<open>
  A shallow embedding of \<^verbatim>\<open>ms_deisotope/data_source/scan/base.py\<close>.
  Floating-point numbers are modelled as reals, Python exceptions as the left
  summand of a sum type, and an attribute read that may fail as a three-valued
  attribute. The functions imported from other modules or called on other objects
  (\<^verbatim>\<open>neutral_mass\<close>, \<^verbatim>\<open>mass_charge_ratio\<close>, \<^verbatim>\<open>deconvolute_peaks\<close>, peak picking
  and peak lookup) are the fields of a record that the operations using them take as
  an argument; \<^verbatim>\<open>average_signal\<close> is an argument of the addition. The conversion
  \<^verbatim>\<open>mass_charge_ratio\<close> divides by the absolute charge and so can raise; it returns a
  sum. Warnings are not modelled: \<^verbatim>\<open>warnings.warn\<close> changes neither a result nor a
  field.
\<close>

subsection \<open>Exceptions and numpy helpers\<close>

datatype py_error =
  AttributeError | TypeError | ValueError | IndexError | KeyError | ZeroDivisionError

text \<open>\<^verbatim>\<open>np.isclose(a, b)\<close> with its default tolerances:
  \<^verbatim>\<open>|a - b| <= atol + rtol * |b|\<close>, \<^verbatim>\<open>rtol = 1e-5\<close>, \<^verbatim>\<open>atol = 1e-8\<close>.\<close>

definition isclose :: "real \<Rightarrow> real \<Rightarrow> bool" where
  "isclose a b \<longleftrightarrow> \<bar>a - b\<bar> \<le> 1 / 10 ^ 8 + (1 / 10 ^ 5) * \<bar>b\<bar>"

text \<open>Broadcasting of two one-dimensional arrays: equal lengths pair up
  elementwise, an array of length one is stretched to the other's length, and any
  other pair of shapes raises \<^verbatim>\<open>ValueError\<close>.\<close>

definition broadcast2 :: "'a list \<Rightarrow> 'b list \<Rightarrow> py_error + ('a \<times> 'b) list" where
  "broadcast2 xs ys =
     (if length xs = length ys then Inr (zip xs ys)
      else if length xs = 1 then Inr (map (\<lambda>y. (hd xs, y)) ys)
      else if length ys = 1 then Inr (map (\<lambda>x. (x, hd ys)) xs)
      else Inl ValueError)"

text \<open>\<^verbatim>\<open>np.allclose(a, b)\<close>: \<^verbatim>\<open>isclose\<close> on the broadcast pair, then \<^verbatim>\<open>all\<close>.\<close>

definition allclose :: "real list \<Rightarrow> real list \<Rightarrow> py_error + bool" where
  "allclose a b =
     (case broadcast2 a b of
        Inl e \<Rightarrow> Inl e
      | Inr ps \<Rightarrow> Inr (list_all (\<lambda>(x, y). isclose x y) ps))"

text \<open>Elementwise addition of two numpy arrays.\<close>

definition np_add :: "real list \<Rightarrow> real list \<Rightarrow> py_error + real list" where
  "np_add a b =
     (case broadcast2 a b of
        Inl e \<Rightarrow> Inl e
      | Inr ps \<Rightarrow> Inr (map (\<lambda>(x, y). x + y) ps))"

subsection \<open>RawDataArrays\<close>

text \<open>The named tuple \<^verbatim>\<open>(mz, intensity)\<close> with the instance attribute
  \<^verbatim>\<open>data_arrays\<close> that \<^verbatim>\<open>__new__\<close> attaches.\<close>

record raw_data_arrays =
  arr_mz :: "real list"
  arr_intensity :: "real list"
  data_arrays :: "string \<rightharpoonup> real list"

text \<open>\<^verbatim>\<open>__new__(cls, mz, intensity, arrays=None)\<close>: the mapping starts empty and is
  updated from \<^verbatim>\<open>arrays\<close> when that is given and non-empty.\<close>

definition rda_new :: "real list \<Rightarrow> real list \<Rightarrow> (string \<rightharpoonup> real list) option \<Rightarrow> raw_data_arrays" where
  "rda_new m i arrs =
     \<lparr>arr_mz = m, arr_intensity = i,
      data_arrays = (case arrs of None \<Rightarrow> Map.empty | Some d \<Rightarrow> Map.empty ++ d)\<rparr>"

definition rda_copy :: "raw_data_arrays \<Rightarrow> raw_data_arrays" where
  "rda_copy self = rda_new (arr_mz self) (arr_intensity self) (Some (data_arrays self))"

definition rda_mul :: "raw_data_arrays \<Rightarrow> real \<Rightarrow> raw_data_arrays" where
  "rda_mul self i = rda_new (arr_mz self) (map (\<lambda>x. x * i) (arr_intensity self)) None"

text \<open>\<^verbatim>\<open>__add__\<close>; \<^verbatim>\<open>average_signal\<close> is the collaborator of
  \<^verbatim>\<open>ms_peak_picker\<close>, which returns the pair of resampled arrays.\<close>

definition rda_add ::
  "(raw_data_arrays list \<Rightarrow> real list \<times> real list) \<Rightarrow>
   raw_data_arrays \<Rightarrow> raw_data_arrays \<Rightarrow> py_error + raw_data_arrays" where
  "rda_add average_signal self other =
     (if length (arr_mz self) = length (arr_mz other)
         \<and> allclose (arr_mz self) (arr_mz other) = Inr True
      then (case np_add (arr_intensity self) (arr_intensity other) of
              Inl e \<Rightarrow> Inl e
            | Inr s \<Rightarrow> Inr (rda_new (arr_mz self) s None))
      else (case average_signal [self, other] of
              (m, i) \<Rightarrow> Inr (rda_mul (rda_new m i None) 2)))"

text \<open>The right operand of \<^verbatim>\<open>==\<close> may be any Python value; the ones that matter
  here are \<^verbatim>\<open>None\<close>, a plain number and another \<^verbatim>\<open>RawDataArrays\<close>.\<close>

datatype py_value = PyNone | PyNumber real | PyArrays raw_data_arrays

text \<open>\<^verbatim>\<open>other[k]\<close> for \<^verbatim>\<open>k\<close> in \<^verbatim>\<open>{0, 1}\<close>: \<^verbatim>\<open>None\<close> and numbers are not
  subscriptable, which is a \<^verbatim>\<open>TypeError\<close>.\<close>

fun py_getitem :: "py_value \<Rightarrow> nat \<Rightarrow> py_error + real list" where
  "py_getitem PyNone k = Inl TypeError"
| "py_getitem (PyNumber x) k = Inl TypeError"
| "py_getitem (PyArrays a) k =
     (if k = 0 then Inr (arr_mz a) else if k = 1 then Inr (arr_intensity a) else Inl IndexError)"

text \<open>\<^verbatim>\<open>__eq__\<close>: only \<^verbatim>\<open>ValueError\<close> is caught and turned into \<^verbatim>\<open>False\<close>; the
  second \<^verbatim>\<open>allclose\<close> is evaluated only when the first one is true.\<close>

definition catch_ValueError :: "py_error + bool \<Rightarrow> py_error + bool" where
  "catch_ValueError r = (case r of Inl ValueError \<Rightarrow> Inr False | _ \<Rightarrow> r)"

definition rda_eq :: "raw_data_arrays \<Rightarrow> py_value \<Rightarrow> py_error + bool" where
  "rda_eq self other =
     catch_ValueError
       (case py_getitem other 0 of
          Inl e \<Rightarrow> Inl e
        | Inr om \<Rightarrow>
           (case allclose (arr_mz self) om of
              Inl e \<Rightarrow> Inl e
            | Inr False \<Rightarrow> Inr False
            | Inr True \<Rightarrow>
               (case py_getitem other 1 of
                  Inl e \<Rightarrow> Inl e
                | Inr oi \<Rightarrow> allclose (arr_intensity self) oi)))"

text \<open>\<^verbatim>\<open>find_mz\<close>. The downward scan of the tolerance branch: \<^verbatim>\<open>i\<close> runs from
  \<^verbatim>\<open>mid\<close> to \<^verbatim>\<open>-1\<close>, so it is an integer; the pair is
  \<^verbatim>\<open>(best_index, best_err)\<close>.\<close>

function scan_down :: "real list \<Rightarrow> real \<Rightarrow> int \<Rightarrow> nat \<times> real \<Rightarrow> nat \<times> real" where
  "scan_down mzs q i (best_index, best_err) =
     (if i \<ge> 0 then
        (let err = mzs ! nat i - q in
         if err \<le> - (1 / 10) then (best_index, best_err)
         else if \<bar>err\<bar> < best_err then scan_down mzs q (i - 1) (nat i, \<bar>err\<bar>)
         else scan_down mzs q (i - 1) (best_index, best_err))
      else (best_index, best_err))"
  by pat_completeness auto
termination
  by (relation "measure (\<lambda>(mzs, q, i, b). nat (i + 1))") auto

text \<open>The upward scan, from \<^verbatim>\<open>mid\<close> to \<^verbatim>\<open>n\<close>.\<close>

function scan_up :: "real list \<Rightarrow> real \<Rightarrow> nat \<Rightarrow> nat \<times> real \<Rightarrow> nat \<times> real" where
  "scan_up mzs q i (best_index, best_err) =
     (if i < length mzs then
        (let err = mzs ! i - q in
         if err \<ge> 1 / 10 then (best_index, best_err)
         else if \<bar>err\<bar> < best_err then scan_up mzs q (i + 1) (i, \<bar>err\<bar>)
         else scan_up mzs q (i + 1) (best_index, best_err))
      else (best_index, best_err))"
  by pat_completeness auto
termination
  by (relation "measure (\<lambda>(mzs, q, i, b). length mzs - i)") auto

text \<open>The \<^verbatim>\<open>while hi != lo\<close> loop. For \<^verbatim>\<open>hi < lo\<close> the loop of the source need
  not end, so the loop is a partial function and \<^verbatim>\<open>None\<close> stands for not returning;
  \<^verbatim>\<open>find_mz\<close> starts it at \<^verbatim>\<open>lo = 0\<close>, \<^verbatim>\<open>hi = n\<close>, where every midpoint is a
  valid index.\<close>

partial_function (option) find_mz_loop :: "real list \<Rightarrow> real \<Rightarrow> nat \<Rightarrow> nat \<Rightarrow> nat option" where
  "find_mz_loop mzs q lo hi =
     (if hi \<noteq> lo then
        (let mid = (hi + lo) div 2; err = mzs ! mid - q in
         if \<bar>err\<bar> < 1 / 10
         then Some (fst (scan_up mzs q mid (scan_down mzs q (int mid) (mid, \<bar>err\<bar>))))
         else if hi - lo = 1 then Some mid
         else if err > 0 then find_mz_loop mzs q lo mid
         else find_mz_loop mzs q mid hi)
      else Some 0)"

declare find_mz_loop.simps [code]

definition find_mz :: "real list \<Rightarrow> real \<Rightarrow> nat option" where
  "find_mz mzs q = find_mz_loop mzs q 0 (length mzs)"

text \<open>\<^verbatim>\<open>between_mz\<close>: reading \<^verbatim>\<open>self.mz[i]\<close> beyond the end raises
  \<^verbatim>\<open>IndexError\<close>; the slice \<^verbatim>\<open>[i:j]\<close> is empty when \<^verbatim>\<open>j <= i\<close>.\<close>

definition py_slice :: "'a list \<Rightarrow> nat \<Rightarrow> nat \<Rightarrow> 'a list" where
  "py_slice xs i j = take (j - i) (drop i xs)"

definition between_mz :: "raw_data_arrays \<Rightarrow> real \<Rightarrow> real \<Rightarrow> (py_error + raw_data_arrays) option" where
  "between_mz self low high =
     (case find_mz (arr_mz self) low of
        None \<Rightarrow> None
      | Some i \<Rightarrow>
         (case find_mz (arr_mz self) high of
            None \<Rightarrow> None
          | Some j0 \<Rightarrow>
             (let j = j0 + 1 in
              if i < length (arr_mz self) then
                (let i' = (if \<not> (low \<le> arr_mz self ! i \<and> arr_mz self ! i \<le> high) then i + 1 else i)
                 in Some (Inr (rda_new (py_slice (arr_mz self) i' j)
                                       (py_slice (arr_intensity self) i' j) None)))
              else Some (Inl IndexError))))"

subsection \<open>Peaks and scans\<close>

text \<open>\<^verbatim>\<open>ChargeNotProvided\<close> is a constant object that no integer equals.\<close>

datatype charge_t = ChargeNotProvided | Charge int

definition DEFAULT_CHARGE_WHEN_NOT_RESOLVED :: int where
  "DEFAULT_CHARGE_WHEN_NOT_RESOLVED = 1"

record fitted_peak =
  fp_mz :: real
  fp_intensity :: real

record deconvoluted_peak =
  dp_neutral_mass :: real
  dp_intensity :: real
  dp_charge :: int

text \<open>Reading an attribute of a Python object: the attribute may be missing (the read
  raises \<^verbatim>\<open>AttributeError\<close>), hold \<^verbatim>\<open>None\<close>, or hold a value.\<close>

datatype 'a attr = AttrMissing | AttrNone | AttrValue 'a

fun getattr :: "'a attr \<Rightarrow> py_error + 'a option" where
  "getattr AttrMissing = Inl AttributeError"
| "getattr AttrNone = Inr None"
| "getattr (AttrValue v) = Inr (Some v)"

text \<open>What iterating over an object yields: peak-like objects, plain numbers, or
  anything else.\<close>

datatype element = PeakLike fitted_peak | Number real | Other

text \<open>The object handed to the facades and to the precursor lookup: the attributes of
  a scan that this module reads, and \<^verbatim>\<open>elements\<close>, the result of \<^verbatim>\<open>list(scan)\<close>
  (\<^verbatim>\<open>None\<close> when the object is not iterable).\<close>

record scan =
  scan_id :: string
  polarity :: int
  peak_set :: "fitted_peak list attr"
  deconvoluted_peak_set :: "deconvoluted_peak list attr"
  arrays :: "raw_data_arrays attr"
  elements :: "element list option"

text \<open>The functions this module imports or calls on other objects.
  \<^verbatim>\<open>mass_charge_ratio(neutral_mass, z)\<close> may raise (it divides by \<^verbatim>\<open>abs(z)\<close>, a
  \<^verbatim>\<open>ZeroDivisionError\<close> at charge zero), so its result is a sum.\<close>

record collaborators =
  neutral_mass :: "real \<Rightarrow> int \<Rightarrow> real"
  mass_charge_ratio :: "real \<Rightarrow> int \<Rightarrow> py_error + real"
  pick_peaks :: "scan \<Rightarrow> scan"
  has_peak :: "scan \<Rightarrow> real \<Rightarrow> real \<Rightarrow> fitted_peak option"
  between :: "fitted_peak list \<Rightarrow> real \<Rightarrow> real \<Rightarrow> fitted_peak list"
  deconvolute_peaks ::
    "fitted_peak list \<Rightarrow> fitted_peak list \<Rightarrow> int \<times> int \<Rightarrow>
     deconvoluted_peak list \<times> deconvoluted_peak option list"

subsection \<open>PrecursorInformation\<close>

type_synonym coisolation_t = "real \<times> real \<times> int"

type_synonym scan_source = "string \<Rightarrow> py_error + scan option"

record precursor_information =
  pi_mz :: real
  pi_intensity :: real
  pi_charge :: charge_t
  precursor_scan_id :: "string option"
  source :: "scan_source option"
  extracted_neutral_mass :: real
  extracted_charge :: charge_t
  extracted_intensity :: real
  peak :: "fitted_peak option"
  extracted_peak :: "deconvoluted_peak option"
  defaulted :: bool
  orphan :: bool
  product_scan_id :: "string option"
  annotations :: "string \<rightharpoonup> string"
  coisolation :: "coisolation_t list"

text \<open>\<^verbatim>\<open>__init__\<close>; a missing or empty \<^verbatim>\<open>annotations\<close> or \<^verbatim>\<open>coisolation\<close> argument
  becomes a fresh empty mapping or list. The two \<^verbatim>\<open>int(...)\<close> conversions keep an
  integer charge and leave \<^verbatim>\<open>ChargeNotProvided\<close> as it is.\<close>

definition pi_init ::
  "real \<Rightarrow> real \<Rightarrow> charge_t \<Rightarrow> string option \<Rightarrow> scan_source option \<Rightarrow>
   real \<Rightarrow> charge_t \<Rightarrow> real \<Rightarrow> fitted_peak option \<Rightarrow> deconvoluted_peak option \<Rightarrow>
   bool \<Rightarrow> bool \<Rightarrow> string option \<Rightarrow> (string \<rightharpoonup> string) option \<Rightarrow>
   coisolation_t list option \<Rightarrow> precursor_information" where
  "pi_init m i c psid src enm ec ei pk epk dflt orph prid ann coi =
     \<lparr>pi_mz = m, pi_intensity = i, pi_charge = c,
      precursor_scan_id = psid, source = src,
      extracted_neutral_mass = enm, extracted_charge = ec, extracted_intensity = ei,
      peak = pk, extracted_peak = epk, defaulted = dflt, orphan = orph,
      product_scan_id = prid,
      annotations = (case ann of None \<Rightarrow> Map.empty | Some a \<Rightarrow> a),
      coisolation = (case coi of None \<Rightarrow> [] | Some l \<Rightarrow> l)\<rparr>"

text \<open>The pickled state: the tuple of \<^verbatim>\<open>__getstate__\<close>, whose first thirteen entries
  are always there; older payloads stop after them, or after the annotations.\<close>

type_synonym state13 =
  "real \<times> real \<times> charge_t \<times> string option \<times> scan_source option \<times> real \<times> charge_t \<times> real
   \<times> fitted_peak option \<times> deconvoluted_peak option \<times> bool \<times> bool \<times> string option"

datatype pi_state =
    State13 state13
  | State14 state13 "string \<rightharpoonup> string"
  | State15 state13 "string \<rightharpoonup> string" "coisolation_t list"

definition pi_getstate :: "precursor_information \<Rightarrow> pi_state" where
  "pi_getstate self =
     State15 (pi_mz self, pi_intensity self, pi_charge self, precursor_scan_id self, None,
              extracted_neutral_mass self, extracted_charge self, extracted_intensity self,
              peak self, extracted_peak self, defaulted self, orphan self,
              product_scan_id self)
             (annotations self) (coisolation self)"

definition set13 :: "precursor_information \<Rightarrow> state13 \<Rightarrow> precursor_information" where
  "set13 self st =
     (case st of (m, i, c, psid, src, enm, ec, ei, pk, epk, dflt, orph, prid) \<Rightarrow>
        self\<lparr>pi_mz := m, pi_intensity := i, pi_charge := c, precursor_scan_id := psid,
             source := src, extracted_neutral_mass := enm, extracted_charge := ec,
             extracted_intensity := ei, peak := pk, extracted_peak := epk,
             defaulted := dflt, orphan := orph, product_scan_id := prid\<rparr>)"

fun pi_setstate :: "precursor_information \<Rightarrow> pi_state \<Rightarrow> precursor_information" where
  "pi_setstate self (State13 st) = set13 self st"
| "pi_setstate self (State14 st ann) = (set13 self st)\<lparr>annotations := ann\<rparr>"
| "pi_setstate self (State15 st ann coi) =
     (set13 self st)\<lparr>annotations := ann, coisolation := coi\<rparr>"

text \<open>Unpickling through \<^verbatim>\<open>__reduce__\<close>: the class is called with \<^verbatim>\<open>(0, 0, 0)\<close> and
  the state is then set on the new object.\<close>

definition pi_unpickle :: "pi_state \<Rightarrow> precursor_information" where
  "pi_unpickle st =
     pi_setstate
       (pi_init 0 0 (Charge 0) None None 0 (Charge 0) 0 None None False False None None None)
       st"

text \<open>The properties \<^verbatim>\<open>neutral_mass\<close> and \<^verbatim>\<open>extracted_mz\<close>; the second raises
  what \<^verbatim>\<open>mass_charge_ratio\<close> raises.\<close>

definition pi_neutral_mass :: "collaborators \<Rightarrow> precursor_information \<Rightarrow> real" where
  "pi_neutral_mass env self =
     (case pi_charge self of
        ChargeNotProvided \<Rightarrow> neutral_mass env (pi_mz self) DEFAULT_CHARGE_WHEN_NOT_RESOLVED
      | Charge z \<Rightarrow> neutral_mass env (pi_mz self) z)"

definition extracted_mz :: "collaborators \<Rightarrow> precursor_information \<Rightarrow> py_error + real" where
  "extracted_mz env self =
     (case extracted_charge self of
        ChargeNotProvided \<Rightarrow> mass_charge_ratio env (pi_mz self) DEFAULT_CHARGE_WHEN_NOT_RESOLVED
      | Charge z \<Rightarrow>
          if z = 0 \<and> pi_charge self = ChargeNotProvided
          then mass_charge_ratio env (pi_mz self) DEFAULT_CHARGE_WHEN_NOT_RESOLVED
          else mass_charge_ratio env (extracted_neutral_mass self) z)"

text \<open>\<^verbatim>\<open>__eq__\<close>; \<^verbatim>\<open>other\<close> may be \<^verbatim>\<open>None\<close>. The two scan ids are compared
  first; then \<^verbatim>\<open>self_mass\<close> and \<^verbatim>\<open>other_mass\<close> are computed, in this order, and
  an exception of \<^verbatim>\<open>extracted_mz\<close> leaves the method.\<close>

definition pi_eq ::
  "collaborators \<Rightarrow> precursor_information \<Rightarrow> precursor_information option \<Rightarrow> py_error + bool" where
  "pi_eq env self other_opt =
     (case other_opt of
        None \<Rightarrow> Inr False
      | Some other \<Rightarrow>
         if precursor_scan_id self \<noteq> precursor_scan_id other then Inr False
         else if product_scan_id self \<noteq> product_scan_id other then Inr False
         else
           (let self_fit = (extracted_neutral_mass self \<noteq> 0);
                other_fit = (extracted_neutral_mass other \<noteq> 0)
            in case (if self_fit then extracted_mz env self else Inr (pi_mz self)) of
                 Inl e \<Rightarrow> Inl e
               | Inr self_mass \<Rightarrow>
                  (case (if other_fit then extracted_mz env other else Inr (pi_mz other)) of
                     Inl e \<Rightarrow> Inl e
                   | Inr other_mass \<Rightarrow>
                      if \<not> isclose self_mass other_mass then Inr False
                      else
                        (let self_charge =
                               (if self_fit then extracted_charge self else pi_charge self);
                             other_charge =
                               (if other_fit then extracted_charge other else pi_charge other)
                         in if self_charge \<noteq> other_charge then Inr False else Inr True))))"

text \<open>The methods \<^verbatim>\<open>extract\<close> and \<^verbatim>\<open>default\<close> (both names are taken in
  Isabelle, hence the prefix).\<close>

definition pi_extract ::
  "precursor_information \<Rightarrow> deconvoluted_peak \<Rightarrow> charge_t option \<Rightarrow> precursor_information" where
  "pi_extract self pk override_charge =
     self\<lparr>extracted_neutral_mass := dp_neutral_mass pk,
          extracted_charge := (case override_charge of None \<Rightarrow> Charge (dp_charge pk) | Some c \<Rightarrow> c),
          extracted_intensity := dp_intensity pk,
          extracted_peak := Some pk\<rparr>"

definition pi_default :: "collaborators \<Rightarrow> precursor_information \<Rightarrow> bool \<Rightarrow> precursor_information" where
  "pi_default env self orph =
     (let self1 =
        (case pi_charge self of
           ChargeNotProvided \<Rightarrow>
             self\<lparr>extracted_charge := ChargeNotProvided,
                  extracted_neutral_mass :=
                    neutral_mass env (pi_mz self) DEFAULT_CHARGE_WHEN_NOT_RESOLVED,
                  extracted_intensity := pi_intensity self,
                  defaulted := True\<rparr>
         | Charge z \<Rightarrow>
             (let s1 = self\<lparr>extracted_charge := Charge z\<rparr>;
                  s2 = s1\<lparr>extracted_neutral_mass := pi_neutral_mass env s1\<rparr>
              in s2\<lparr>extracted_intensity := pi_intensity s2, defaulted := True\<rparr>))
      in if orph then self1\<lparr>orphan := True\<rparr> else self1)"

text \<open>The property \<^verbatim>\<open>precursor\<close>: an unbound link has \<^verbatim>\<open>source = None\<close>, and calling
  \<^verbatim>\<open>get_scan_by_id\<close> on it raises \<^verbatim>\<open>AttributeError\<close>.\<close>

definition pi_precursor :: "precursor_information \<Rightarrow> py_error + scan option" where
  "pi_precursor self =
     (case precursor_scan_id self of
        None \<Rightarrow> Inr None
      | Some sid \<Rightarrow>
         (case source self of
            None \<Rightarrow> Inl AttributeError
          | Some get_scan_by_id \<Rightarrow> get_scan_by_id sid))"

text \<open>What \<^verbatim>\<open>find_monoisotopic_peak\<close> returns: the bare \<^verbatim>\<open>False\<close>, or a pair.\<close>

datatype fmp_result = ReturnFalse | ReturnPair real bool

text \<open>The charge range after the polarity adjustment.\<close>

definition adjust_charge_range :: "scan \<Rightarrow> (int \<times> int) option \<Rightarrow> int \<times> int" where
  "adjust_charge_range precursor_scan kw =
     (let charge_range = (case kw of None \<Rightarrow> (1, 8) | Some r \<Rightarrow> r)
      in if polarity precursor_scan < 0 \<and> max (fst charge_range) (snd charge_range) > 0
         then (fst charge_range * polarity precursor_scan,
               snd charge_range * polarity precursor_scan)
         else charge_range)"

text \<open>\<^verbatim>\<open>find_monoisotopic_peak\<close>, from the point where the precursor scan is known
  (the lines after the first \<^verbatim>\<open>if\<close> of the method). The result is the returned value
  and the link as the call leaves it; the precursor scan after peak picking is used
  for the rest of the call. Every \<^verbatim>\<open>return self.extracted_mz, ok\<close> reads the property
  on the link as just updated, and an exception of the property leaves the method.\<close>

definition return_extracted_mz ::
  "collaborators \<Rightarrow> precursor_information \<Rightarrow> bool \<Rightarrow>
   py_error + (fmp_result \<times> precursor_information)" where
  "return_extracted_mz env self' ok =
     (case extracted_mz env self' of
        Inl e \<Rightarrow> Inl e
      | Inr m \<Rightarrow> Inr (ReturnPair m ok, self'))"

definition fmp_with_scan ::
  "collaborators \<Rightarrow> precursor_information \<Rightarrow> bool \<Rightarrow> scan \<Rightarrow> (int \<times> int) option \<Rightarrow>
   py_error + (fmp_result \<times> precursor_information)" where
  "fmp_with_scan env self trust_charge_state scan0 kw =
     (case getattr (peak_set scan0) of
        Inl e \<Rightarrow> Inl e
      | Inr ps0 \<Rightarrow>
         (let precursor_scan = (if ps0 = None then pick_peaks env scan0 else scan0);
              charge_range = adjust_charge_range precursor_scan kw
          in case has_peak env precursor_scan (pi_mz self) (2 / 10 ^ 5) of
               None \<Rightarrow> return_extracted_mz env (pi_default env self True) False
             | Some ref_peak \<Rightarrow>
                 (case getattr (peak_set precursor_scan) of
                    Inl e \<Rightarrow> Inl e
                  | Inr None \<Rightarrow> Inl AttributeError
                  | Inr (Some pks) \<Rightarrow>
                     (let peaks = between env pks (pi_mz self - 3) (pi_mz self + 6);
                          priority_results =
                            snd (deconvolute_peaks env peaks [ref_peak] charge_range)
                      in case priority_results of
                           [] \<Rightarrow> Inl IndexError
                         | None # _ \<Rightarrow>
                             return_extracted_mz env (pi_default env self True) False
                         | Some pk # _ \<Rightarrow>
                             if pi_charge self = ChargeNotProvided then
                               return_extracted_mz env (pi_extract self pk None) True
                             else if trust_charge_state \<and> pi_charge self \<noteq> Charge (dp_charge pk) then
                               return_extracted_mz env (pi_default env self False) False
                             else
                               return_extracted_mz env (pi_extract self pk None) True))))"

definition find_monoisotopic_peak ::
  "collaborators \<Rightarrow> precursor_information \<Rightarrow> bool \<Rightarrow> scan option \<Rightarrow> (int \<times> int) option \<Rightarrow>
   py_error + (fmp_result \<times> precursor_information)" where
  "find_monoisotopic_peak env self trust_charge_state precursor_scan kw =
     (case precursor_scan of
        Some sc \<Rightarrow> fmp_with_scan env self trust_charge_state sc kw
      | None \<Rightarrow>
         if precursor_scan_id self = None then Inr (ReturnFalse, self)
         else
           (case pi_precursor self of
              Inl e \<Rightarrow> Inl e
            | Inr None \<Rightarrow> Inr (ReturnFalse, self)
            | Inr (Some sc) \<Rightarrow> fmp_with_scan env self trust_charge_state sc kw))"

subsection \<open>TICMethods and BasePeakMethods\<close>

text \<open>A \<^verbatim>\<open>try\<close> block whose \<^verbatim>\<open>except (AttributeError, TypeError): pass\<close> falls
  through to what follows it.\<close>

definition try_else :: "py_error + 'a \<Rightarrow> py_error + 'a \<Rightarrow> py_error + 'a" where
  "try_else r nxt =
     (case r of
        Inr v \<Rightarrow> Inr v
      | Inl e \<Rightarrow> if e = AttributeError \<or> e = TypeError then nxt else Inl e)"

text \<open>\<^verbatim>\<open>_peak_set_tic\<close>: the \<^verbatim>\<open>for\<close> loop over \<^verbatim>\<open>None\<close> raises \<^verbatim>\<open>TypeError\<close>.\<close>

fun peak_set_tic :: "('p \<Rightarrow> real) \<Rightarrow> 'p list option \<Rightarrow> py_error + real" where
  "peak_set_tic inten None = Inl TypeError"
| "peak_set_tic inten (Some peaks) = Inr (foldl (\<lambda>tot p. tot + inten p) 0 peaks)"

text \<open>\<^verbatim>\<open>_peak_sequence_tic\<close> and \<^verbatim>\<open>_simple_tic\<close> on the elements of a generic sequence:
  an element without \<^verbatim>\<open>intensity\<close> raises \<^verbatim>\<open>AttributeError\<close>, a non-number in
  \<^verbatim>\<open>sum\<close> raises \<^verbatim>\<open>TypeError\<close>.\<close>

fun peak_sequence_tic :: "element list \<Rightarrow> real \<Rightarrow> py_error + real" where
  "peak_sequence_tic [] tot = Inr tot"
| "peak_sequence_tic (PeakLike p # ps) tot = peak_sequence_tic ps (tot + fp_intensity p)"
| "peak_sequence_tic (_ # ps) tot = Inl AttributeError"

fun simple_tic :: "element list \<Rightarrow> real \<Rightarrow> py_error + real" where
  "simple_tic [] tot = Inr tot"
| "simple_tic (Number x # ps) tot = simple_tic ps (tot + x)"
| "simple_tic (_ # ps) tot = Inl TypeError"

definition tic_raw_data_arrays :: "raw_data_arrays option \<Rightarrow> py_error + real" where
  "tic_raw_data_arrays a =
     (case a of None \<Rightarrow> Inl AttributeError | Some arr \<Rightarrow> Inr (sum_list (arr_intensity arr)))"

definition tic_raw :: "scan \<Rightarrow> py_error + real" where
  "tic_raw s = (case getattr (arrays s) of Inl e \<Rightarrow> Inl e | Inr a \<Rightarrow> tic_raw_data_arrays a)"

definition tic_centroided :: "scan \<Rightarrow> py_error + real" where
  "tic_centroided s =
     (case getattr (peak_set s) of Inl e \<Rightarrow> Inl e | Inr ps \<Rightarrow> peak_set_tic fp_intensity ps)"

definition tic_deconvoluted :: "scan \<Rightarrow> py_error + real" where
  "tic_deconvoluted s =
     (case getattr (deconvoluted_peak_set s) of
        Inl e \<Rightarrow> Inl e
      | Inr ps \<Rightarrow> peak_set_tic dp_intensity ps)"

definition tic_generic :: "scan \<Rightarrow> py_error + real" where
  "tic_generic s =
     (case elements s of
        None \<Rightarrow> Inl TypeError
      | Some [] \<Rightarrow> Inl TypeError
      | Some (PeakLike p # ps) \<Rightarrow> peak_sequence_tic (PeakLike p # ps) 0
      | Some (Number x # ps) \<Rightarrow> simple_tic (Number x # ps) 0
      | Some (Other # ps) \<Rightarrow> Inl TypeError)"

definition tic_guess :: "scan \<Rightarrow> py_error + real" where
  "tic_guess s =
     try_else (tic_deconvoluted s)
       (try_else (tic_centroided s)
          (try_else (tic_raw s) (tic_generic s)))"

text \<open>The base peak is \<^verbatim>\<open>None\<close>, a peak of one of the two peak sets, or the
  \<^verbatim>\<open>BasePeak(mz, intensity)\<close> tuple of the raw tier.\<close>

datatype base_peak =
    NoPeak
  | FittedBP fitted_peak
  | DeconvolutedBP deconvoluted_peak
  | BasePeak real real

text \<open>\<^verbatim>\<open>max(peaks, key=...)\<close> keeps the first of several maximal elements.\<close>

definition py_max_by :: "('p \<Rightarrow> real) \<Rightarrow> 'p \<Rightarrow> 'p list \<Rightarrow> 'p" where
  "py_max_by key x xs = foldl (\<lambda>best p. if key p > key best then p else best) x xs"

text \<open>\<^verbatim>\<open>_peak_set_bp\<close>: \<^verbatim>\<open>not peaks\<close> holds for \<^verbatim>\<open>None\<close> and for an empty set.\<close>

fun peak_set_bp :: "('p \<Rightarrow> real) \<Rightarrow> 'p list option \<Rightarrow> 'p option" where
  "peak_set_bp inten None = None"
| "peak_set_bp inten (Some []) = None"
| "peak_set_bp inten (Some (p # ps)) = Some (py_max_by inten p ps)"

text \<open>\<^verbatim>\<open>np.argmax\<close>: the first index of the maximum; \<^verbatim>\<open>ValueError\<close> on an empty
  array.\<close>

fun argmax_from :: "real list \<Rightarrow> nat \<Rightarrow> nat \<times> real \<Rightarrow> nat" where
  "argmax_from [] i (bi, bv) = bi"
| "argmax_from (x # xs) i (bi, bv) =
     (if x > bv then argmax_from xs (i + 1) (i, x) else argmax_from xs (i + 1) (bi, bv))"

definition np_argmax :: "real list \<Rightarrow> py_error + nat" where
  "np_argmax xs = (case xs of [] \<Rightarrow> Inl ValueError | x # rest \<Rightarrow> Inr (argmax_from rest 1 (0, x)))"

definition bp_raw_data_arrays :: "raw_data_arrays option \<Rightarrow> py_error + base_peak" where
  "bp_raw_data_arrays a =
     (case a of
        None \<Rightarrow> Inl AttributeError
      | Some arr \<Rightarrow>
         (case np_argmax (arr_intensity arr) of
            Inl e \<Rightarrow> Inl e
          | Inr i \<Rightarrow>
             if i < length (arr_mz arr)
             then Inr (BasePeak (arr_mz arr ! i) (arr_intensity arr ! i))
             else Inl IndexError))"

definition bp_raw :: "scan \<Rightarrow> py_error + base_peak" where
  "bp_raw s = (case getattr (arrays s) of Inl e \<Rightarrow> Inl e | Inr a \<Rightarrow> bp_raw_data_arrays a)"

definition bp_centroided :: "scan \<Rightarrow> py_error + base_peak" where
  "bp_centroided s =
     (case getattr (peak_set s) of
        Inl e \<Rightarrow> Inl e
      | Inr ps \<Rightarrow> Inr (case peak_set_bp fp_intensity ps of None \<Rightarrow> NoPeak | Some p \<Rightarrow> FittedBP p))"

definition bp_deconvoluted :: "scan \<Rightarrow> py_error + base_peak" where
  "bp_deconvoluted s =
     (case getattr (deconvoluted_peak_set s) of
        Inl e \<Rightarrow> Inl e
      | Inr ps \<Rightarrow>
         Inr (case peak_set_bp dp_intensity ps of None \<Rightarrow> NoPeak | Some p \<Rightarrow> DeconvolutedBP p))"

text \<open>\<^verbatim>\<open>_peak_sequence_bp\<close> on a generic sequence: the key function raises
  \<^verbatim>\<open>AttributeError\<close> on an element without \<^verbatim>\<open>intensity\<close>.\<close>

fun the_peaks :: "element list \<Rightarrow> py_error + fitted_peak list" where
  "the_peaks [] = Inr []"
| "the_peaks (PeakLike p # es) =
     (case the_peaks es of Inl e \<Rightarrow> Inl e | Inr ps \<Rightarrow> Inr (p # ps))"
| "the_peaks (_ # es) = Inl AttributeError"

definition peak_sequence_bp :: "element list \<Rightarrow> py_error + base_peak" where
  "peak_sequence_bp es =
     (case the_peaks es of
        Inl e \<Rightarrow> Inl e
      | Inr ps \<Rightarrow>
         Inr (case peak_set_bp fp_intensity (Some ps) of None \<Rightarrow> NoPeak | Some p \<Rightarrow> FittedBP p))"

definition bp_generic :: "scan \<Rightarrow> py_error + base_peak" where
  "bp_generic s =
     (case elements s of
        None \<Rightarrow> Inl TypeError
      | Some [] \<Rightarrow> Inl TypeError
      | Some (PeakLike p # ps) \<Rightarrow> peak_sequence_bp (PeakLike p # ps)
      | Some (_ # ps) \<Rightarrow> Inl TypeError)"

definition bp_guess :: "scan \<Rightarrow> py_error + base_peak" where
  "bp_guess s =
     try_else (bp_deconvoluted s)
       (try_else (bp_centroided s)
          (try_else (bp_raw s) (bp_generic s)))"

subsection \<open>A concrete instance of the collaborators\<close>

text \<open>The examples below need concrete collaborators. The two mass conversions are
  those of \<^verbatim>\<open>ms_deisotope.averagine\<close> with the proton as charge carrier; the peak
  lookup takes the first peak within the relative tolerance, \<^verbatim>\<open>between\<close> filters
  by m/z, peak picking yields an empty peak set, and the deconvolution stand-in fits
  every priority peak with the upper end of the charge range.\<close>

definition PROTON :: real where
  "PROTON = 100727646677 / 10 ^ 11"

definition example_env :: collaborators where
  "example_env =
     \<lparr>neutral_mass = (\<lambda>m z. m * \<bar>real_of_int z\<bar> - real_of_int z * PROTON),
      mass_charge_ratio = (\<lambda>m z.
         if z = 0 then Inl ZeroDivisionError
         else Inr ((m + real_of_int z * PROTON) / \<bar>real_of_int z\<bar>)),
      pick_peaks = (\<lambda>s. s\<lparr>peak_set := AttrValue []\<rparr>),
      has_peak = (\<lambda>s m tol.
         case peak_set s of
           AttrValue ps \<Rightarrow> List.find (\<lambda>p. \<bar>fp_mz p - m\<bar> \<le> tol * m) ps
         | _ \<Rightarrow> None),
      between = (\<lambda>ps lo hi. filter (\<lambda>p. lo \<le> fp_mz p \<and> fp_mz p \<le> hi) ps),
      deconvolute_peaks = (\<lambda>ps prio cr.
         ([], map (\<lambda>p. Some \<lparr>dp_neutral_mass = fp_mz p * \<bar>real_of_int (snd cr)\<bar>
                                   - real_of_int (snd cr) * PROTON,
                                 dp_intensity = fp_intensity p,
                                 dp_charge = snd cr\<rparr>) prio))\<rparr>"

definition example_scan :: scan where
  "example_scan =
     \<lparr>scan_id = ''1'', polarity = 1,
      peak_set = AttrValue [\<lparr>fp_mz = 500, fp_intensity = 1000\<rparr>],
      deconvoluted_peak_set = AttrNone, arrays = AttrMissing, elements = None\<rparr>"

definition example_link :: precursor_information where
  "example_link =
     pi_init 500 1000 (Charge 2) (Some ''1'') None 0 (Charge 0) 0 None None False False
       (Some ''2'') None None"

definition example_processed_scan :: scan where
  "example_processed_scan =
     \<lparr>scan_id = ''1'', polarity = 1,
      peak_set = AttrValue [\<lparr>fp_mz = 500, fp_intensity = 1000\<rparr>],
      deconvoluted_peak_set =
        AttrValue [\<lparr>dp_neutral_mass = 700, dp_intensity = 5, dp_charge = 1\<rparr>,
                   \<lparr>dp_neutral_mass = 998, dp_intensity = 10, dp_charge = 2\<rparr>,
                   \<lparr>dp_neutral_mass = 1200, dp_intensity = 2, dp_charge = 3\<rparr>],
      arrays = AttrValue \<lparr>arr_mz = [499, 500], arr_intensity = [400, 1000],
                          data_arrays = Map.empty\<rparr>,
      elements = None\<rparr>"

definition example_number_sequence :: scan where
  "example_number_sequence =
     \<lparr>scan_id = [], polarity = 0, peak_set = AttrMissing,
      deconvoluted_peak_set = AttrMissing, arrays = AttrMissing,
      elements = Some [Number 1, Number 3, Number 2]\<rparr>"

section \<open>Properties\<close>

subsection \<open>The nearest-index search\<close>

lemma scan_down_props:
  "sorted mzs \<Longrightarrow> i < int (length mzs) \<Longrightarrow> bi < length mzs \<Longrightarrow> be = \<bar>mzs ! bi - q\<bar> \<Longrightarrow>
   scan_down mzs q i (bi, be) = (bi', be') \<Longrightarrow>
   bi' < length mzs \<and> be' = \<bar>mzs ! bi' - q\<bar> \<and> be' \<le> be
   \<and> (\<forall>k. int k \<le> i \<and> - (1 / 10) < mzs ! k - q \<longrightarrow> be' \<le> \<bar>mzs ! k - q\<bar>)"
proof (induction mzs q i "(bi, be)" arbitrary: bi be rule: scan_down.induct)
  case (1 mzs q i bi be)
  note srt = \<open>sorted mzs\<close>
  show ?case
  proof (cases "i \<ge> 0")
    case False
    with "1.prems" show ?thesis by auto
  next
    case nonneg: True
    let ?err = "mzs ! nat i - q"
    have ilt: "nat i < length mzs" using nonneg "1.prems"(2) by linarith
    have im: "i - 1 < int (length mzs)" using "1.prems"(2) by simp
    show ?thesis
    proof (cases "?err \<le> - (1 / 10)")
      case True
      have res: "bi' = bi" "be' = be"
        using "1.prems"(5) nonneg True by (simp_all add: Let_def)
      have "\<forall>k. int k \<le> i \<and> - (1 / 10) < mzs ! k - q \<longrightarrow> be' \<le> \<bar>mzs ! k - q\<bar>"
      proof (intro allI impI)
        fix k assume k: "int k \<le> i \<and> - (1 / 10) < mzs ! k - q"
        then have "k \<le> nat i" by linarith
        then have "mzs ! k \<le> mzs ! nat i"
          using srt ilt by (simp add: sorted_nth_mono)
        with True k show "be' \<le> \<bar>mzs ! k - q\<bar>" by linarith
      qed
      with res "1.prems" show ?thesis by auto
    next
      case nobreak: False
      show ?thesis
      proof (cases "\<bar>?err\<bar> < be")
        case True
        have call: "scan_down mzs q (i - 1) (nat i, \<bar>?err\<bar>) = (bi', be')"
          using "1.prems"(5) nonneg nobreak True by (simp add: Let_def)
        have IH: "bi' < length mzs \<and> be' = \<bar>mzs ! bi' - q\<bar> \<and> be' \<le> \<bar>?err\<bar>
           \<and> (\<forall>k. int k \<le> i - 1 \<and> - (1 / 10) < mzs ! k - q \<longrightarrow> be' \<le> \<bar>mzs ! k - q\<bar>)"
          by (rule "1.hyps"(1) [OF nonneg refl nobreak True srt im ilt refl call])
        have "\<forall>k. int k \<le> i \<and> - (1 / 10) < mzs ! k - q \<longrightarrow> be' \<le> \<bar>mzs ! k - q\<bar>"
        proof (intro allI impI)
          fix k assume k: "int k \<le> i \<and> - (1 / 10) < mzs ! k - q"
          show "be' \<le> \<bar>mzs ! k - q\<bar>"
          proof (cases "int k = i")
            case True
            then have "k = nat i" by simp
            with IH show ?thesis by simp
          next
            case False
            with k have "int k \<le> i - 1" by simp
            with IH k show ?thesis by blast
          qed
        qed
        with IH True show ?thesis by simp
      next
        case False
        have call: "scan_down mzs q (i - 1) (bi, be) = (bi', be')"
          using "1.prems"(5) nonneg nobreak False by (simp add: Let_def)
        have IH: "bi' < length mzs \<and> be' = \<bar>mzs ! bi' - q\<bar> \<and> be' \<le> be
           \<and> (\<forall>k. int k \<le> i - 1 \<and> - (1 / 10) < mzs ! k - q \<longrightarrow> be' \<le> \<bar>mzs ! k - q\<bar>)"
          by (rule "1.hyps"(2) [OF nonneg refl nobreak False srt im "1.prems"(3) "1.prems"(4) call])
        have "\<forall>k. int k \<le> i \<and> - (1 / 10) < mzs ! k - q \<longrightarrow> be' \<le> \<bar>mzs ! k - q\<bar>"
        proof (intro allI impI)
          fix k assume k: "int k \<le> i \<and> - (1 / 10) < mzs ! k - q"
          show "be' \<le> \<bar>mzs ! k - q\<bar>"
          proof (cases "int k = i")
            case True
            then have "k = nat i" by simp
            with IH False show ?thesis by simp
          next
            case False
            with k have "int k \<le> i - 1" by simp
            with IH k show ?thesis by blast
          qed
        qed
        with IH show ?thesis by simp
      qed
    qed
  qed
qed


lemma scan_up_props:
  "sorted mzs \<Longrightarrow> bi < length mzs \<Longrightarrow> be = \<bar>mzs ! bi - q\<bar> \<Longrightarrow>
   scan_up mzs q i (bi, be) = (bi', be') \<Longrightarrow>
   bi' < length mzs \<and> be' = \<bar>mzs ! bi' - q\<bar> \<and> be' \<le> be
   \<and> (\<forall>k. i \<le> k \<and> k < length mzs \<and> mzs ! k - q < 1 / 10 \<longrightarrow> be' \<le> \<bar>mzs ! k - q\<bar>)"
proof (induction mzs q i "(bi, be)" arbitrary: bi be rule: scan_up.induct)
  case (1 mzs q i bi be)
  note srt = \<open>sorted mzs\<close>
  show ?case
  proof (cases "i < length mzs")
    case False
    with "1.prems" show ?thesis by auto
  next
    case ilt: True
    let ?err = "mzs ! i - q"
    show ?thesis
    proof (cases "?err \<ge> 1 / 10")
      case True
      have res: "bi' = bi" "be' = be"
        using "1.prems"(4) ilt True by (simp_all add: Let_def)
      have "\<forall>k. i \<le> k \<and> k < length mzs \<and> mzs ! k - q < 1 / 10 \<longrightarrow> be' \<le> \<bar>mzs ! k - q\<bar>"
      proof (intro allI impI)
        fix k assume k: "i \<le> k \<and> k < length mzs \<and> mzs ! k - q < 1 / 10"
        then have "mzs ! i \<le> mzs ! k"
          using srt by (simp add: sorted_nth_mono)
        with True k show "be' \<le> \<bar>mzs ! k - q\<bar>" by linarith
      qed
      with res "1.prems" show ?thesis by auto
    next
      case nobreak: False
      show ?thesis
      proof (cases "\<bar>?err\<bar> < be")
        case True
        have call: "scan_up mzs q (i + 1) (i, \<bar>?err\<bar>) = (bi', be')"
          using "1.prems"(4) ilt nobreak True by (simp add: Let_def)
        have IH: "bi' < length mzs \<and> be' = \<bar>mzs ! bi' - q\<bar> \<and> be' \<le> \<bar>?err\<bar>
           \<and> (\<forall>k. i + 1 \<le> k \<and> k < length mzs \<and> mzs ! k - q < 1 / 10 \<longrightarrow> be' \<le> \<bar>mzs ! k - q\<bar>)"
          by (rule "1.hyps"(1) [OF ilt refl nobreak True srt ilt refl call])
        have "\<forall>k. i \<le> k \<and> k < length mzs \<and> mzs ! k - q < 1 / 10 \<longrightarrow> be' \<le> \<bar>mzs ! k - q\<bar>"
        proof (intro allI impI)
          fix k assume k: "i \<le> k \<and> k < length mzs \<and> mzs ! k - q < 1 / 10"
          show "be' \<le> \<bar>mzs ! k - q\<bar>"
          proof (cases "k = i")
            case True
            with IH show ?thesis by simp
          next
            case False
            with k have "i + 1 \<le> k" by simp
            with IH k show ?thesis by blast
          qed
        qed
        with IH True show ?thesis by simp
      next
        case False
        have call: "scan_up mzs q (i + 1) (bi, be) = (bi', be')"
          using "1.prems"(4) ilt nobreak False by (simp add: Let_def)
        have IH: "bi' < length mzs \<and> be' = \<bar>mzs ! bi' - q\<bar> \<and> be' \<le> be
           \<and> (\<forall>k. i + 1 \<le> k \<and> k < length mzs \<and> mzs ! k - q < 1 / 10 \<longrightarrow> be' \<le> \<bar>mzs ! k - q\<bar>)"
          by (rule "1.hyps"(2) [OF ilt refl nobreak False srt "1.prems"(2) "1.prems"(3) call])
        have "\<forall>k. i \<le> k \<and> k < length mzs \<and> mzs ! k - q < 1 / 10 \<longrightarrow> be' \<le> \<bar>mzs ! k - q\<bar>"
        proof (intro allI impI)
          fix k assume k: "i \<le> k \<and> k < length mzs \<and> mzs ! k - q < 1 / 10"
          show "be' \<le> \<bar>mzs ! k - q\<bar>"
          proof (cases "k = i")
            case True
            with IH False show ?thesis by simp
          next
            case False
            with k have "i + 1 \<le> k" by simp
            with IH k show ?thesis by blast
          qed
        qed
        with IH show ?thesis by simp
      qed
    qed
  qed
qed

text \<open>The refinement step of the tolerance branch.\<close>

lemma refine_props:
  assumes srt: "sorted mzs" and mid: "mid < length mzs"
    and r: "r = fst (scan_up mzs q mid (scan_down mzs q (int mid) (mid, \<bar>mzs ! mid - q\<bar>)))"
  shows "r < length mzs \<and> \<bar>mzs ! r - q\<bar> \<le> \<bar>mzs ! mid - q\<bar>
       \<and> (\<forall>k<length mzs. \<bar>mzs ! k - q\<bar> < 1 / 10 \<longrightarrow> \<bar>mzs ! r - q\<bar> \<le> \<bar>mzs ! k - q\<bar>)"
proof -
  obtain b1 e1 where d: "scan_down mzs q (int mid) (mid, \<bar>mzs ! mid - q\<bar>) = (b1, e1)"
    by (cases "scan_down mzs q (int mid) (mid, \<bar>mzs ! mid - q\<bar>)")
  obtain b2 e2 where u: "scan_up mzs q mid (b1, e1) = (b2, e2)"
    by (cases "scan_up mzs q mid (b1, e1)")
  have midlt: "int mid < int (length mzs)" using mid by simp
  have D: "b1 < length mzs \<and> e1 = \<bar>mzs ! b1 - q\<bar> \<and> e1 \<le> \<bar>mzs ! mid - q\<bar>
       \<and> (\<forall>k. int k \<le> int mid \<and> - (1 / 10) < mzs ! k - q \<longrightarrow> e1 \<le> \<bar>mzs ! k - q\<bar>)"
    by (rule scan_down_props [OF srt midlt mid refl d])
  then have b1: "b1 < length mzs" and e1: "e1 = \<bar>mzs ! b1 - q\<bar>" by simp_all
  have U: "b2 < length mzs \<and> e2 = \<bar>mzs ! b2 - q\<bar> \<and> e2 \<le> e1
       \<and> (\<forall>k. mid \<le> k \<and> k < length mzs \<and> mzs ! k - q < 1 / 10 \<longrightarrow> e2 \<le> \<bar>mzs ! k - q\<bar>)"
    by (rule scan_up_props [OF srt b1 e1 u])
  have rb: "r = b2" using r d u by simp
  have "\<forall>k<length mzs. \<bar>mzs ! k - q\<bar> < 1 / 10 \<longrightarrow> e2 \<le> \<bar>mzs ! k - q\<bar>"
  proof (intro allI impI)
    fix k assume k: "k < length mzs" and t: "\<bar>mzs ! k - q\<bar> < 1 / 10"
    show "e2 \<le> \<bar>mzs ! k - q\<bar>"
    proof (cases "k \<le> mid")
      case True
      from t have lo: "- (1 / 10) < mzs ! k - q" by linarith
      from True have "int k \<le> int mid" by simp
      with lo D have "e1 \<le> \<bar>mzs ! k - q\<bar>" by blast
      with U show ?thesis by linarith
    next
      case False
      from t have up: "mzs ! k - q < 1 / 10" by linarith
      from False have "mid \<le> k" by simp
      with up k U show ?thesis by blast
    qed
  qed
  moreover have "e2 \<le> \<bar>mzs ! mid - q\<bar>" using U D by linarith
  ultimately show ?thesis using U rb by simp
qed


lemma find_mz_loop_props:
  assumes srt: "sorted mzs"
  shows "lo < hi \<Longrightarrow> hi \<le> length mzs \<Longrightarrow> lo = 0 \<or> mzs ! lo \<le> q - 1 / 10 \<Longrightarrow>
         hi = length mzs \<or> q + 1 / 10 \<le> mzs ! hi \<Longrightarrow>
         \<exists>r. find_mz_loop mzs q lo hi = Some r \<and> r < length mzs
           \<and> (\<forall>k<length mzs. \<bar>mzs ! k - q\<bar> < 1 / 10 \<longrightarrow> \<bar>mzs ! r - q\<bar> \<le> \<bar>mzs ! k - q\<bar>)
           \<and> ((\<forall>k<length mzs. \<not> \<bar>mzs ! k - q\<bar> < 1 / 10) \<longrightarrow>
                (mzs ! 0 \<le> q \<longrightarrow> mzs ! r \<le> q) \<and> (\<forall>k<length mzs. r < k \<longrightarrow> q < mzs ! k))"
proof (induction "hi - lo" arbitrary: lo hi rule: less_induct)
  case less
  let ?n = "length mzs"
  let ?mid = "(hi + lo) div 2"
  let ?err = "mzs ! ?mid - q"
  have ne: "hi \<noteq> lo" using less.prems(1) by simp
  have midlo: "lo \<le> ?mid" and midhi: "?mid < hi" using less.prems(1) by simp_all
  have midn: "?mid < ?n" using midhi less.prems(2) by simp
  show ?case
  proof (cases "\<bar>?err\<bar> < 1 / 10")
    case True
    let ?r = "fst (scan_up mzs q ?mid (scan_down mzs q (int ?mid) (?mid, \<bar>?err\<bar>)))"
    have eq: "find_mz_loop mzs q lo hi = Some ?r"
      using ne True by (subst find_mz_loop.simps) (simp add: Let_def)
    have R: "?r < ?n \<and> \<bar>mzs ! ?r - q\<bar> \<le> \<bar>?err\<bar>
       \<and> (\<forall>k<?n. \<bar>mzs ! k - q\<bar> < 1 / 10 \<longrightarrow> \<bar>mzs ! ?r - q\<bar> \<le> \<bar>mzs ! k - q\<bar>)"
      by (rule refine_props [OF srt midn refl])
    have "\<not> (\<forall>k<?n. \<not> \<bar>mzs ! k - q\<bar> < 1 / 10)" using True midn by blast
    with eq R show ?thesis by blast
  next
    case out: False
    show ?thesis
    proof (cases "hi - lo = 1")
      case True
      then have mid: "?mid = lo" and hi: "hi = Suc lo" by simp_all
      have eq: "find_mz_loop mzs q lo hi = Some lo"
        using ne out True mid by (subst find_mz_loop.simps) (simp add: Let_def)
      have lon: "lo < ?n" using midn mid by simp
      have errlo: "\<not> \<bar>mzs ! lo - q\<bar> < 1 / 10" using out mid by simp
      have below: "k \<le> lo \<Longrightarrow> mzs ! k \<le> mzs ! lo" for k
        using srt lon by (simp add: sorted_nth_mono)
      have above: "lo < k \<Longrightarrow> k < ?n \<Longrightarrow> q + 1 / 10 \<le> mzs ! k" for k
      proof -
        assume k: "lo < k" "k < ?n"
        then have "hi \<le> k" using hi by simp
        moreover from this k have "hi \<noteq> ?n" by simp
        ultimately have "mzs ! hi \<le> mzs ! k" "q + 1 / 10 \<le> mzs ! hi"
          using srt k less.prems(4) by (simp_all add: sorted_nth_mono)
        then show ?thesis by linarith
      qed
      have none: "\<not> \<bar>mzs ! k - q\<bar> < 1 / 10" if k: "k < ?n" for k
      proof (cases "k \<le> lo")
        case False
        then have "q + 1 / 10 \<le> mzs ! k" using above k by simp
        then show ?thesis by linarith
      next
        case kle: True
        show ?thesis
        proof (cases "mzs ! lo \<le> q - 1 / 10")
          case True
          with below [OF kle] show ?thesis by linarith
        next
          case False
          with less.prems(3) have z: "lo = 0" by blast
          with kle have "k = lo" by simp
          with errlo show ?thesis by simp
        qed
      qed
      have p2a: "mzs ! 0 \<le> q \<longrightarrow> mzs ! lo \<le> q"
        using less.prems(3) by (cases "lo = 0") auto
      have p2b: "\<forall>k<?n. lo < k \<longrightarrow> q < mzs ! k"
      proof (intro allI impI)
        fix k assume "k < ?n" "lo < k"
        then have "q + 1 / 10 \<le> mzs ! k" using above by simp
        then show "q < mzs ! k" by linarith
      qed
      from eq lon none p2a p2b show ?thesis by blast
    next
      case wide: False
      then have gap: "lo < ?mid" using less.prems(1) by linarith
      show ?thesis
      proof (cases "?err > 0")
        case True
        have eq: "find_mz_loop mzs q lo hi = find_mz_loop mzs q lo ?mid"
          using ne out wide True by (subst find_mz_loop.simps) (simp add: Let_def)
        have up: "?mid = ?n \<or> q + 1 / 10 \<le> mzs ! ?mid" using True out by linarith
        have m: "?mid - lo < hi - lo" using midhi gap by linarith
        have le: "?mid \<le> ?n" using midn by simp
        from less.hyps [OF m gap le less.prems(3) up] eq show ?thesis by simp
      next
        case False
        have eq: "find_mz_loop mzs q lo hi = find_mz_loop mzs q ?mid hi"
          using ne out wide False by (subst find_mz_loop.simps) (simp add: Let_def)
        have dn: "?mid = 0 \<or> mzs ! ?mid \<le> q - 1 / 10" using False out by linarith
        have m: "hi - ?mid < hi - lo" using midhi gap by linarith
        from less.hyps [OF m midhi less.prems(2) dn less.prems(4)] eq show ?thesis by simp
      qed
    qed
  qed
qed

lemma find_mz_empty: "find_mz [] q = Some 0"
  unfolding find_mz_def by (subst find_mz_loop.simps) simp

text \<open>
  C2. On a sorted, non-empty m/z array and a query inside its range, \<^verbatim>\<open>find_mz\<close>
  returns a valid index. Its m/z is at least as close to the query as that of every
  index whose m/z is less than 0.1 away from the query (on a sorted array these
  indices are one run around the midpoint where the search lands, and the result is
  one of them as soon as there is one). When no point is within 0.1 of the query, the
  result is the index on which the search window closes: the last point at or below
  the query, every later point being above it.
\<close>

theorem find_mz_nearest_within_tolerance:
  assumes "sorted mzs" and "mzs \<noteq> []" and "hd mzs \<le> q" and "q \<le> last mzs"
  shows "\<exists>r. find_mz mzs q = Some r \<and> r < length mzs
           \<and> (\<forall>k<length mzs. \<bar>mzs ! k - q\<bar> < 1 / 10 \<longrightarrow> \<bar>mzs ! r - q\<bar> \<le> \<bar>mzs ! k - q\<bar>)
           \<and> ((\<forall>k<length mzs. \<not> \<bar>mzs ! k - q\<bar> < 1 / 10) \<longrightarrow>
                mzs ! r \<le> q \<and> (\<forall>k<length mzs. r < k \<longrightarrow> q < mzs ! k))"
proof -
  have pos: "0 < length mzs" using assms(2) by simp
  have first: "mzs ! 0 \<le> q" using assms(2,3) by (simp add: hd_conv_nth)
  from find_mz_loop_props [OF assms(1) pos le_refl, of q] first
  show ?thesis unfolding find_mz_def by auto
qed

theorem find_mz_nearest_within_tolerance_witness:
  "sorted [1, 2, 41 / 20, 3 :: real] \<and> [1, 2, 41 / 20, 3 :: real] \<noteq> []
   \<and> hd [1, 2, 41 / 20, 3 :: real] \<le> (51 / 25 :: real) \<and> (51 / 25 :: real) \<le> last [1, 2, 41 / 20, 3 :: real]
   \<and> find_mz [1, 2, 41 / 20, 3 :: real] (51 / 25 :: real) = Some 2
   \<and> (\<exists>r. find_mz [1, 2, 41 / 20, 3 :: real] (51 / 25 :: real) = Some r \<and> r < length [1, 2, 41 / 20, 3 :: real]
         \<and> (\<forall>k<length [1, 2, 41 / 20, 3 :: real]. \<bar>[1, 2, 41 / 20, 3 :: real] ! k - (51 / 25 :: real)\<bar> < 1 / 10 \<longrightarrow> \<bar>[1, 2, 41 / 20, 3 :: real] ! r - (51 / 25 :: real)\<bar> \<le> \<bar>[1, 2, 41 / 20, 3 :: real] ! k - (51 / 25 :: real)\<bar>)
         \<and> ((\<forall>k<length [1, 2, 41 / 20, 3 :: real]. \<not> \<bar>[1, 2, 41 / 20, 3 :: real] ! k - (51 / 25 :: real)\<bar> < 1 / 10) \<longrightarrow>
              [1, 2, 41 / 20, 3 :: real] ! r \<le> (51 / 25 :: real) \<and> (\<forall>k<length [1, 2, 41 / 20, 3 :: real]. r < k \<longrightarrow> (51 / 25 :: real) < [1, 2, 41 / 20, 3 :: real] ! k)))"
proof -
  have h1: "sorted [1, 2, 41 / 20, 3 :: real]" by simp
  have h2: "[1, 2, 41 / 20, 3 :: real] \<noteq> []" by simp
  have h3: "hd [1, 2, 41 / 20, 3 :: real] \<le> (51 / 25 :: real)" by simp
  have h4: "(51 / 25 :: real) \<le> last [1, 2, 41 / 20, 3 :: real]" by simp
  have ev: "find_mz [1, 2, 41 / 20, 3 :: real] (51 / 25 :: real) = Some 2" by code_simp
  note t = find_mz_nearest_within_tolerance [OF h1 h2 h3 h4]
  show ?thesis by (intro conjI h1 h2 h3 h4 ev t)
qed

subsection \<open>Slicing between two m/z values\<close>

lemma find_mz_low_example: "find_mz [1, 2] 1 = Some 0"
  by code_simp

lemma find_mz_high_example: "find_mz [1, 2] (39 / 20) = Some 1"
  by code_simp

text \<open>
  C3. Every point of \<^verbatim>\<open>between_mz(low, high)\<close> should have its m/z inside
  \<^verbatim>\<open>[low, high]\<close>. The code corrects the lower index when the nearest point lies
  outside the interval, but not the upper one: on the sorted array \<^verbatim>\<open>[1, 2]\<close> with
  \<^verbatim>\<open>low = 1\<close> and \<^verbatim>\<open>high = 1.95\<close> the nearest index to \<^verbatim>\<open>high\<close> is that of
  \<^verbatim>\<open>2\<close>, and the slice returned contains the point at m/z 2, above \<^verbatim>\<open>high\<close>.
\<close>

theorem between_mz_keeps_point_above_high:
  "sorted [1, 2 :: real] \<and> (1 :: real) \<le> 39 / 20
   \<and> between_mz \<lparr>arr_mz = [1, 2], arr_intensity = [10, 20], data_arrays = Map.empty\<rparr> 1 (39 / 20)
       = Some (Inr \<lparr>arr_mz = [1, 2], arr_intensity = [10, 20], data_arrays = Map.empty\<rparr>)
   \<and> (2 :: real) \<in> set [1, 2] \<and> (39 / 20 :: real) < 2"
  by (simp add: between_mz_def find_mz_low_example find_mz_high_example py_slice_def rda_new_def)

subsection \<open>Arithmetic on raw arrays drops the auxiliary channels\<close>

lemma data_arrays_rda_mul: "data_arrays (rda_mul a i) = Map.empty"
  by (simp add: rda_mul_def rda_new_def)

lemma data_arrays_rda_add:
  "rda_add avg a b = Inr r \<Longrightarrow> data_arrays r = Map.empty"
  by (auto simp: rda_add_def rda_new_def rda_mul_def split: if_splits sum.splits prod.splits)

lemma data_arrays_rda_copy: "data_arrays (rda_copy a) = data_arrays a"
  by (simp add: rda_copy_def rda_new_def)

text \<open>
  C10. For a raw signal array that carries at least one auxiliary data channel, the
  array produced by scaling and every array produced by addition (whichever of the
  two branches of the addition is taken) has an empty auxiliary-channel mapping;
  only the explicit copy keeps the channels.
\<close>

theorem arithmetic_drops_data_arrays:
  assumes "data_arrays a \<noteq> Map.empty" and "rda_add avg a b = Inr r"
  shows "data_arrays (rda_mul a i) = Map.empty
       \<and> data_arrays r = Map.empty
       \<and> data_arrays (rda_copy a) = data_arrays a
       \<and> data_arrays (rda_copy a) \<noteq> Map.empty"
  using assms
  by (simp add: data_arrays_rda_mul data_arrays_rda_add [of avg a b r] data_arrays_rda_copy)

theorem arithmetic_drops_data_arrays_witness:
  "data_arrays (\<lparr>arr_mz = [1, 2], arr_intensity = [10, 20],
                  data_arrays = [''drift'' \<mapsto> [3, 4]]\<rparr>) \<noteq> Map.empty
   \<and> rda_add (\<lambda>xs. ([], []))
        \<lparr>arr_mz = [1, 2], arr_intensity = [10, 20], data_arrays = [''drift'' \<mapsto> [3, 4]]\<rparr>
        \<lparr>arr_mz = [1, 2], arr_intensity = [1, 1], data_arrays = [''drift'' \<mapsto> [5, 6]]\<rparr>
      = Inr \<lparr>arr_mz = [1, 2], arr_intensity = [11, 21], data_arrays = Map.empty\<rparr>
   \<and> data_arrays (rda_mul \<lparr>arr_mz = [1, 2], arr_intensity = [10, 20],
                  data_arrays = [''drift'' \<mapsto> [3, 4]]\<rparr> 3) = Map.empty
   \<and> data_arrays (rda_copy \<lparr>arr_mz = [1, 2], arr_intensity = [10, 20],
                  data_arrays = [''drift'' \<mapsto> [3, 4]]\<rparr>) \<noteq> Map.empty"
proof -
  let ?a = "\<lparr>arr_mz = [1, 2], arr_intensity = [10, 20], data_arrays = [''drift'' \<mapsto> [3, 4::real]]\<rparr>"
  let ?b = "\<lparr>arr_mz = [1, 2], arr_intensity = [1, 1], data_arrays = [''drift'' \<mapsto> [5, 6::real]]\<rparr>"
  let ?r = "\<lparr>arr_mz = [1, 2], arr_intensity = [11, 21], data_arrays = Map.empty :: string \<rightharpoonup> real list\<rparr>"
  have ne: "data_arrays ?a \<noteq> Map.empty"
    by (simp add: fun_eq_iff)
  have add: "rda_add (\<lambda>xs. ([], [])) ?a ?b = Inr ?r"
    by (simp add: rda_add_def allclose_def np_add_def broadcast2_def isclose_def rda_new_def)
  from arithmetic_drops_data_arrays [OF ne add, of 3] ne add show ?thesis
    by simp
qed

subsection \<open>Equality of raw arrays\<close>

text \<open>
  C8. Comparing a raw signal array with a value that is not an array should give
  \<^verbatim>\<open>False\<close>. \<^verbatim>\<open>__eq__\<close> catches only \<^verbatim>\<open>ValueError\<close>: subscripting \<^verbatim>\<open>None\<close> or
  a number raises \<^verbatim>\<open>TypeError\<close>, which leaves the method. Arrays of different
  lengths compare unequal when their shapes cannot be broadcast, but an array of
  length one is broadcast against a longer one and can compare equal to it.
\<close>

theorem rda_eq_non_array_raises:
  "rda_eq \<lparr>arr_mz = [1], arr_intensity = [2], data_arrays = Map.empty\<rparr> PyNone = Inl TypeError
   \<and> rda_eq \<lparr>arr_mz = [1], arr_intensity = [2], data_arrays = Map.empty\<rparr> (PyNumber 5) = Inl TypeError
   \<and> rda_eq \<lparr>arr_mz = [1], arr_intensity = [2], data_arrays = Map.empty\<rparr>
        (PyArrays \<lparr>arr_mz = [1, 1, 1], arr_intensity = [2, 2, 2], data_arrays = Map.empty\<rparr>) = Inr True
   \<and> rda_eq \<lparr>arr_mz = [1, 2], arr_intensity = [2, 2], data_arrays = Map.empty\<rparr>
        (PyArrays \<lparr>arr_mz = [1, 2, 3], arr_intensity = [2, 2, 2], data_arrays = Map.empty\<rparr>) = Inr False"
  by (simp add: rda_eq_def catch_ValueError_def allclose_def broadcast2_def isclose_def)

subsection \<open>Pickling of precursor information\<close>

text \<open>
  C9. Unpickling the state of a link gives back the link with every attribute as it
  was, except \<^verbatim>\<open>source\<close>, which is \<^verbatim>\<open>None\<close>. A payload of thirteen entries, as
  older versions wrote it, gives an empty annotation mapping and an empty coisolation
  list; one of fourteen entries gives an empty coisolation list.
\<close>

theorem pickle_roundtrip:
  "pi_unpickle (pi_getstate p) = p\<lparr>source := None\<rparr>
   \<and> source (pi_unpickle (pi_getstate p)) = None
   \<and> annotations (pi_unpickle (State13 st)) = Map.empty
   \<and> coisolation (pi_unpickle (State13 st)) = []
   \<and> coisolation (pi_unpickle (State14 st ann)) = []"
  by (cases p) (simp add: pi_unpickle_def pi_getstate_def pi_init_def set13_def split: prod.splits)

subsection \<open>Equality of precursor information\<close>

text \<open>
  C5 as stated says that a link with a non-zero extracted neutral mass never equals
  one without. It does: a link that has been defaulted equals the link it was before,
  whose extracted neutral mass is still zero.
\<close>

theorem pi_eq_mixed_counterexample:
  "extracted_neutral_mass (pi_default example_env example_link False) \<noteq> 0
   \<and> extracted_neutral_mass example_link = 0
   \<and> pi_eq example_env (pi_default example_env example_link False) (Some example_link) = Inr True"
  by (simp add: pi_eq_def pi_default_def example_link_def pi_init_def example_env_def
      pi_neutral_mass_def extracted_mz_def isclose_def PROTON_def Let_def)

text \<open>The comparison raises when the m/z of a link with a non-zero extracted mass
  cannot be computed, as for an extracted charge of zero.\<close>

lemma pi_eq_raises:
  "pi_eq example_env (example_link\<lparr>extracted_neutral_mass := 998\<rparr>)
     (Some (example_link\<lparr>extracted_neutral_mass := 998\<rparr>)) = Inl ZeroDivisionError"
  by (simp add: pi_eq_def example_link_def pi_init_def example_env_def extracted_mz_def Let_def)

text \<open>
  C5, amended. Nothing equals \<^verbatim>\<open>None\<close>, and links whose precursor or product scan
  ids differ are unequal. The effective m/z and charge of a link are the extracted
  ones if that link's own extracted neutral mass is non-zero and the vendor ones
  otherwise; the choice is made for each link separately. Whenever the effective m/z
  of both links can be computed, the two links are equal exactly when their scan ids
  match, their effective m/z values are numerically close and their effective charges
  are equal.
\<close>

theorem pi_eq_characterisation:
  assumes "(if extracted_neutral_mass a \<noteq> 0 then extracted_mz env a else Inr (pi_mz a)) = Inr ma"
    and "(if extracted_neutral_mass b \<noteq> 0 then extracted_mz env b else Inr (pi_mz b)) = Inr mb"
  shows "pi_eq env a None = Inr False
       \<and> pi_eq env a (Some b) =
           Inr (precursor_scan_id a = precursor_scan_id b
              \<and> product_scan_id a = product_scan_id b
              \<and> isclose ma mb
              \<and> (if extracted_neutral_mass a \<noteq> 0 then extracted_charge a else pi_charge a)
                = (if extracted_neutral_mass b \<noteq> 0 then extracted_charge b else pi_charge b))"
  using assms by (simp add: pi_eq_def Let_def)

theorem pi_eq_characterisation_witness:
  "pi_eq example_env example_link None = Inr False
   \<and> pi_eq example_env example_link (Some example_link) = Inr True
   \<and> pi_eq example_env example_link (Some (example_link\<lparr>pi_charge := Charge 3\<rparr>)) = Inr False
   \<and> pi_eq example_env (pi_default example_env example_link False)
        (Some (example_link\<lparr>pi_mz := 501\<rparr>)) = Inr False"
proof -
  have a: "(if extracted_neutral_mass example_link \<noteq> 0 then extracted_mz example_env example_link
            else Inr (pi_mz example_link)) = Inr 500"
    by (simp add: example_link_def pi_init_def)
  have b: "(if extracted_neutral_mass (example_link\<lparr>pi_charge := Charge 3\<rparr>) \<noteq> 0
            then extracted_mz example_env (example_link\<lparr>pi_charge := Charge 3\<rparr>)
            else Inr (pi_mz (example_link\<lparr>pi_charge := Charge 3\<rparr>))) = Inr 500"
    by (simp add: example_link_def pi_init_def)
  have c: "(if extracted_neutral_mass (pi_default example_env example_link False) \<noteq> 0
            then extracted_mz example_env (pi_default example_env example_link False)
            else Inr (pi_mz (pi_default example_env example_link False))) = Inr 500"
    by (simp add: pi_default_def example_link_def pi_init_def example_env_def
        pi_neutral_mass_def extracted_mz_def PROTON_def Let_def)
  have d: "(if extracted_neutral_mass (example_link\<lparr>pi_mz := 501\<rparr>) \<noteq> 0
            then extracted_mz example_env (example_link\<lparr>pi_mz := 501\<rparr>)
            else Inr (pi_mz (example_link\<lparr>pi_mz := 501\<rparr>))) = Inr 501"
    by (simp add: example_link_def pi_init_def)
  from pi_eq_characterisation [OF a a] pi_eq_characterisation [OF a b]
       pi_eq_characterisation [OF c d]
  show ?thesis
    by (simp add: example_link_def pi_init_def isclose_def pi_default_def pi_neutral_mass_def
        example_env_def PROTON_def Let_def)
qed

subsection \<open>Finding the monoisotopic peak\<close>

lemma pi_default_known_charge:
  "pi_charge self = Charge z \<Longrightarrow>
   pi_default env self False =
     self\<lparr>extracted_neutral_mass := neutral_mass env (pi_mz self) z,
          extracted_charge := Charge z,
          extracted_intensity := pi_intensity self,
          defaulted := True\<rparr>"
  by (simp add: pi_default_def pi_neutral_mass_def Let_def)

lemma example_env_mass_charge_ratio:
  "mass_charge_ratio example_env m z = Inr r \<Longrightarrow> z \<noteq> 0"
  "z \<noteq> 0 \<Longrightarrow> \<exists>r. mass_charge_ratio example_env m z = Inr r"
  by (auto simp: example_env_def split: if_splits)

text \<open>
  C1 as stated covers every known integer vendor charge. At the vendor charge zero
  the link is defaulted and the m/z it is to return divides by the absolute charge:
  the call raises \<^verbatim>\<open>ZeroDivisionError\<close> instead of returning a pair.
\<close>

theorem fmp_zero_charge_counterexample:
  "pi_charge (example_link\<lparr>pi_charge := Charge 0\<rparr>) = Charge 0
   \<and> orphan (example_link\<lparr>pi_charge := Charge 0\<rparr>) = False
   \<and> has_peak example_env example_scan (pi_mz (example_link\<lparr>pi_charge := Charge 0\<rparr>)) (2 / 10 ^ 5)
       = Some \<lparr>fp_mz = 500, fp_intensity = 1000\<rparr>
   \<and> map (map_option dp_charge)
        (snd (deconvolute_peaks example_env [\<lparr>fp_mz = 500, fp_intensity = 1000\<rparr>]
                [\<lparr>fp_mz = 500, fp_intensity = 1000\<rparr>] (1, 8))) = [Some 8]
   \<and> find_monoisotopic_peak example_env (example_link\<lparr>pi_charge := Charge 0\<rparr>) True
        (Some example_scan) None = Inl ZeroDivisionError"
  by (simp add: find_monoisotopic_peak_def fmp_with_scan_def return_extracted_mz_def
      extracted_mz_def pi_default_def pi_neutral_mass_def adjust_charge_range_def
      example_env_def example_scan_def example_link_def pi_init_def Let_def)

text \<open>
  C1, amended. Take a link whose vendor charge is a known integer at which the m/z
  of the vendor neutral mass can be computed (with the conversion of
  \<^verbatim>\<open>ms_deisotope.averagine\<close>: any charge but zero) and which is not an orphan, a
  precursor scan that resolves (given as an argument or looked up through the
  source), in which a reference peak is found, and a deconvolution whose fit for that
  peak has a charge other than the vendor charge. Then \<^verbatim>\<open>find_monoisotopic_peak\<close>
  with \<^verbatim>\<open>trust_charge_state=True\<close> returns \<^verbatim>\<open>(extracted_mz, False)\<close>; afterwards
  the link is defaulted and not an orphan, and its extracted charge, neutral mass and
  intensity are those computed from the vendor values, not those of the fit.
\<close>

theorem fmp_untrusted_fit_defaults:
  assumes charge: "pi_charge self = Charge z"
    and conv: "mass_charge_ratio env (neutral_mass env (pi_mz self) z) z = Inr m"
    and orph: "\<not> orphan self"
    and resolve: "precursor_scan = Some sc
                  \<or> (precursor_scan = None \<and> pi_precursor self = Inr (Some sc))"
    and ps0: "getattr (peak_set sc) = Inr ps0"
    and picked: "picked = (if ps0 = None then pick_peaks env sc else sc)"
    and ref: "has_peak env picked (pi_mz self) (2 / 10 ^ 5) = Some ref_peak"
    and pks: "peak_set picked = AttrValue pks"
    and fit: "snd (deconvolute_peaks env (between env pks (pi_mz self - 3) (pi_mz self + 6))
                     [ref_peak] (adjust_charge_range picked kw)) = Some pk # rest"
    and mismatch: "dp_charge pk \<noteq> z"
    and self': "self' = self\<lparr>extracted_neutral_mass := neutral_mass env (pi_mz self) z,
                              extracted_charge := Charge z,
                              extracted_intensity := pi_intensity self,
                              defaulted := True\<rparr>"
  shows "find_monoisotopic_peak env self True precursor_scan kw
           = Inr (ReturnPair m False, self')
       \<and> extracted_mz env self' = Inr m
       \<and> defaulted self' \<and> \<not> orphan self'"
proof -
  have mz: "extracted_mz env self' = Inr m"
    using charge conv self' by (simp add: extracted_mz_def)
  have w: "fmp_with_scan env self True sc kw = Inr (ReturnPair m False, self')"
    using ps0 picked ref pks fit mismatch charge self' mz
    by (simp add: fmp_with_scan_def return_extracted_mz_def Let_def
        pi_default_known_charge [OF charge])
  have "precursor_scan_id self \<noteq> None" if "pi_precursor self = Inr (Some sc)"
    using that by (auto simp: pi_precursor_def split: option.splits)
  with resolve w have "find_monoisotopic_peak env self True precursor_scan kw
             = Inr (ReturnPair m False, self')"
    by (auto simp: find_monoisotopic_peak_def)
  then show ?thesis using mz orph self' by simp
qed

theorem fmp_untrusted_fit_defaults_witness:
  "pi_charge example_link = Charge 2 \<and> \<not> orphan example_link
   \<and> find_monoisotopic_peak example_env example_link True (Some example_scan) None
       = Inr (ReturnPair 500 False,
              example_link\<lparr>extracted_neutral_mass := 1000 - 2 * PROTON,
                           extracted_charge := Charge 2,
                           extracted_intensity := 1000,
                           defaulted := True\<rparr>)
   \<and> defaulted (example_link\<lparr>extracted_neutral_mass := 1000 - 2 * PROTON,
                           extracted_charge := Charge 2,
                           extracted_intensity := 1000,
                           defaulted := True\<rparr>)
   \<and> \<not> orphan (example_link\<lparr>extracted_neutral_mass := 1000 - 2 * PROTON,
                           extracted_charge := Charge 2,
                           extracted_intensity := 1000,
                           defaulted := True\<rparr>)"
proof -
  let ?pk = "\<lparr>dp_neutral_mass = 500 * \<bar>real_of_int 8\<bar> - real_of_int 8 * PROTON,
              dp_intensity = 1000, dp_charge = 8\<rparr>"
  have h1: "pi_charge example_link = Charge 2"
    by (simp add: example_link_def pi_init_def)
  have hc: "mass_charge_ratio example_env
              (neutral_mass example_env (pi_mz example_link) 2) 2 = Inr 500"
    by (simp add: example_env_def example_link_def pi_init_def)
  have h2: "\<not> orphan example_link"
    by (simp add: example_link_def pi_init_def)
  have h3: "Some example_scan = Some example_scan
            \<or> (Some example_scan = None \<and> pi_precursor example_link = Inr (Some example_scan))"
    by simp
  have h4: "getattr (peak_set example_scan) = Inr (Some [\<lparr>fp_mz = 500, fp_intensity = 1000\<rparr>])"
    by (simp add: example_scan_def)
  have h5: "example_scan = (if Some [\<lparr>fp_mz = 500, fp_intensity = 1000\<rparr>] = None
                            then pick_peaks example_env example_scan else example_scan)"
    by simp
  have h6: "has_peak example_env example_scan (pi_mz example_link) (2 / 10 ^ 5)
              = Some \<lparr>fp_mz = 500, fp_intensity = 1000\<rparr>"
    by (simp add: example_env_def example_scan_def example_link_def pi_init_def)
  have h7: "peak_set example_scan = AttrValue [\<lparr>fp_mz = 500, fp_intensity = 1000\<rparr>]"
    by (simp add: example_scan_def)
  have h8: "snd (deconvolute_peaks example_env
                   (between example_env [\<lparr>fp_mz = 500, fp_intensity = 1000\<rparr>]
                      (pi_mz example_link - 3) (pi_mz example_link + 6))
                   [\<lparr>fp_mz = 500, fp_intensity = 1000\<rparr>]
                   (adjust_charge_range example_scan None)) = Some ?pk # []"
    by (simp add: example_env_def example_scan_def adjust_charge_range_def)
  have h9: "dp_charge ?pk \<noteq> 2" by simp
  note t = fmp_untrusted_fit_defaults [OF h1 hc h2 h3 h4 h5 h6 h7 h8 h9 refl]
  have nm: "neutral_mass example_env (pi_mz example_link) 2 = 1000 - 2 * PROTON"
    by (simp add: example_env_def example_link_def pi_init_def)
  have it: "pi_intensity example_link = 1000"
    by (simp add: example_link_def pi_init_def)
  from t h1 h2 show ?thesis
    by (simp add: nm it)
qed

text \<open>An unbound link whose precursor scan id is set is another matter: there the
  lookup itself raises.\<close>

lemma fmp_unbound_raises:
  "precursor_scan_id self = Some sid \<Longrightarrow> source self = None \<Longrightarrow>
   find_monoisotopic_peak env self trust None kw = Inl AttributeError"
  by (simp add: find_monoisotopic_peak_def pi_precursor_def)

text \<open>
  C6. Called without a precursor scan on a link whose precursor scan id is
  \<^verbatim>\<open>None\<close>, or whose lookup yields \<^verbatim>\<open>None\<close>, \<^verbatim>\<open>find_monoisotopic_peak\<close> returns
  \<^verbatim>\<open>False\<close> without raising and leaves every field of the link as it was.
\<close>

theorem fmp_unresolvable_returns_false:
  assumes "precursor_scan_id self = None \<or> pi_precursor self = Inr None"
  shows "find_monoisotopic_peak env self trust None kw = Inr (ReturnFalse, self)"
  using assms by (auto simp: find_monoisotopic_peak_def)

theorem fmp_unresolvable_returns_false_witness:
  "pi_precursor (example_link\<lparr>source := Some (\<lambda>sid. Inr None)\<rparr>) = Inr None
   \<and> find_monoisotopic_peak example_env (example_link\<lparr>source := Some (\<lambda>sid. Inr None)\<rparr>)
        True None None
       = Inr (ReturnFalse, example_link\<lparr>source := Some (\<lambda>sid. Inr None)\<rparr>)
   \<and> precursor_scan_id (example_link\<lparr>precursor_scan_id := None\<rparr>) = None
   \<and> find_monoisotopic_peak example_env (example_link\<lparr>precursor_scan_id := None\<rparr>)
        True None None
       = Inr (ReturnFalse, example_link\<lparr>precursor_scan_id := None\<rparr>)"
proof -
  have h1: "pi_precursor (example_link\<lparr>source := Some (\<lambda>sid. Inr None)\<rparr>) = Inr None"
    by (simp add: pi_precursor_def example_link_def pi_init_def)
  have h2: "precursor_scan_id (example_link\<lparr>precursor_scan_id := None\<rparr>) = None"
    by simp
  from fmp_unresolvable_returns_false [OF disjI2, OF h1, of example_env True None]
       fmp_unresolvable_returns_false [OF disjI1, OF h2, of example_env True None]
       h1 h2
  show ?thesis by simp
qed

subsection \<open>The total ion current and base peak facades\<close>

lemma foldl_intensity:
  "foldl (\<lambda>tot p. tot + inten p) acc ps = acc + sum_list (map inten ps)"
  by (induction ps arbitrary: acc) (simp_all add: algebra_simps)

lemma peak_set_tic_sum:
  "peak_set_tic inten (Some ps) = Inr (sum_list (map inten ps))"
  by (simp add: foldl_intensity)

lemma py_max_by_props:
  "py_max_by key x xs \<in> set (x # xs)
   \<and> (\<forall>q\<in>set (x # xs). key q \<le> key (py_max_by key x xs))"
proof (induction xs arbitrary: x)
  case Nil
  show ?case by (simp add: py_max_by_def)
next
  case (Cons y ys)
  have step: "py_max_by key x (y # ys) = py_max_by key (if key y > key x then y else x) ys"
    by (simp add: py_max_by_def)
  show ?case
  proof (cases "key y > key x")
    case True
    with Cons [of y] step show ?thesis by auto
  next
    case False
    with Cons [of x] step show ?thesis by auto
  qed
qed

lemma sum_list_of_intensities: "mset xs = {#10, 5, 2::real#} \<Longrightarrow> sum_list xs = 17"
proof -
  assume h: "mset xs = {#10, 5, 2::real#}"
  have "sum_list xs = sum_mset (mset xs)" by (rule sum_mset_sum_list [symmetric])
  also have "\<dots> = sum_mset {#10, 5, 2::real#}" by (simp only: h)
  also have "\<dots> = 17" by simp
  finally show ?thesis .
qed

lemma set_of_intensities: "mset xs = {#10, 5, 2::real#} \<Longrightarrow> set xs = {10, 5, 2}"
proof -
  assume h: "mset xs = {#10, 5, 2::real#}"
  have "set xs = set_mset (mset xs)" by simp
  also have "\<dots> = set_mset {#10, 5, 2::real#}" by (simp only: h)
  also have "\<dots> = {10, 5, 2}" by simp
  finally show ?thesis .
qed

text \<open>
  C4. On a scan whose deconvoluted peak set has the intensities 10, 5 and 2 (in
  whatever order the set yields its peaks), the tier-aware call of the total ion
  current facade returns 17 and that of the base peak facade returns a peak of the
  set whose intensity is 10, the largest of the set, whatever the picked peak set and
  the raw arrays of the scan are.
\<close>

theorem tier_priority_deconvoluted:
  assumes "deconvoluted_peak_set s = AttrValue dps"
    and "mset (map dp_intensity dps) = {#10, 5, 2#}"
  shows "tic_guess s = Inr 17
       \<and> (\<exists>p. bp_guess s = Inr (DeconvolutedBP p) \<and> p \<in> set dps \<and> dp_intensity p = 10
              \<and> (\<forall>q\<in>set dps. dp_intensity q \<le> dp_intensity p))"
proof -
  have "sum_list (map dp_intensity dps) = 17"
    using assms(2) by (rule sum_list_of_intensities)
  then have tic: "tic_guess s = Inr 17"
    using assms(1)
    by (simp add: tic_guess_def try_else_def tic_deconvoluted_def peak_set_tic_sum
        del: peak_set_tic.simps)
  have vals: "set (map dp_intensity dps) = {10, 5, 2}"
    using assms(2) by (rule set_of_intensities)
  then have "dps \<noteq> []" by auto
  then obtain d ds where dps: "dps = d # ds" by (cases dps) auto
  let ?p = "py_max_by dp_intensity d ds"
  have bp: "bp_guess s = Inr (DeconvolutedBP ?p)"
    using assms(1) dps by (simp add: bp_guess_def try_else_def bp_deconvoluted_def)
  have mem: "?p \<in> set dps" and mx: "\<forall>q\<in>set dps. dp_intensity q \<le> dp_intensity ?p"
    using py_max_by_props [of dp_intensity d ds] dps by simp_all
  have "dp_intensity ?p \<in> set (map dp_intensity dps)" using mem by simp
  then have in3: "dp_intensity ?p \<in> {10, 5, 2}" by (simp only: vals)
  have "10 \<in> set (map dp_intensity dps)" by (simp only: vals) simp
  then obtain q where q: "q \<in> set dps" "dp_intensity q = 10" by auto
  from mx q have "10 \<le> dp_intensity ?p" by fastforce
  with in3 have ten: "dp_intensity ?p = 10" by auto
  from tic bp mem ten mx show ?thesis by blast
qed

theorem tier_priority_deconvoluted_witness:
  "tic_guess example_processed_scan = Inr 17
   \<and> bp_guess example_processed_scan
       = Inr (DeconvolutedBP \<lparr>dp_neutral_mass = 998, dp_intensity = 10, dp_charge = 2\<rparr>)
   \<and> tic_centroided example_processed_scan = Inr 1000
   \<and> tic_raw example_processed_scan = Inr 1400"
proof -
  let ?dps = "[\<lparr>dp_neutral_mass = 700, dp_intensity = 5, dp_charge = 1\<rparr>,
               \<lparr>dp_neutral_mass = 998, dp_intensity = 10, dp_charge = 2\<rparr>,
               \<lparr>dp_neutral_mass = 1200, dp_intensity = 2, dp_charge = 3\<rparr>]"
  have h1: "deconvoluted_peak_set example_processed_scan = AttrValue ?dps"
    by (simp add: example_processed_scan_def)
  have h2: "mset (map dp_intensity ?dps) = {#10, 5, 2#}" by (simp add: add_mset_commute)
  from tier_priority_deconvoluted [OF h1 h2]
  obtain p where t: "tic_guess example_processed_scan = Inr 17"
    and p: "bp_guess example_processed_scan = Inr (DeconvolutedBP p)"
    "p \<in> set ?dps" "dp_intensity p = 10" by blast
  from p(2,3) have "p = \<lparr>dp_neutral_mass = 998, dp_intensity = 10, dp_charge = 2\<rparr>"
    by auto
  with p(1) t show ?thesis
    by (simp add: tic_centroided_def tic_raw_def tic_raw_data_arrays_def example_processed_scan_def)
qed

text \<open>
  C7 as stated says that the base peak facade reduces a non-empty sequence of plain
  numbers to its maximum. It raises \<^verbatim>\<open>TypeError\<close>: its fallback handles peak-like
  elements only.
\<close>

theorem bp_number_sequence_counterexample:
  "deconvoluted_peak_set example_number_sequence = AttrMissing
   \<and> peak_set example_number_sequence = AttrMissing
   \<and> arrays example_number_sequence = AttrMissing
   \<and> elements example_number_sequence = Some [Number 1, Number 3, Number 2]
   \<and> bp_guess example_number_sequence = Inl TypeError"
  by (simp add: example_number_sequence_def bp_guess_def try_else_def bp_deconvoluted_def
      bp_centroided_def bp_raw_def bp_generic_def)

lemma simple_tic_numbers: "simple_tic (map Number xs) acc = Inr (acc + sum_list xs)"
  by (induction xs arbitrary: acc) (simp_all add: algebra_simps)

text \<open>
  C7, amended. On an object that has none of the three attributes and is a non-empty
  sequence of plain numbers, the total ion current facade returns the sum of the
  numbers, and the base peak facade fails with a type error: the generic fallback of
  the base peak facade reduces sequences of peak-like elements only.
\<close>

theorem generic_numbers_tic_sums_bp_fails:
  assumes "deconvoluted_peak_set s = AttrMissing" and "peak_set s = AttrMissing"
    and "arrays s = AttrMissing" and "elements s = Some (map Number (x # xs))"
  shows "bp_guess s = Inl TypeError \<and> tic_guess s = Inr (sum_list (x # xs))"
proof -
  have "bp_guess s = Inl TypeError"
    using assms
    by (simp add: bp_guess_def try_else_def bp_deconvoluted_def bp_centroided_def bp_raw_def
        bp_generic_def)
  moreover have "tic_guess s = Inr (sum_list (x # xs))"
    using assms simple_tic_numbers [of xs "0 + x"]
    by (simp add: tic_guess_def try_else_def tic_deconvoluted_def tic_centroided_def tic_raw_def
        tic_generic_def)
  ultimately show ?thesis by simp
qed


theorem generic_numbers_tic_sums_bp_fails_witness:
  "bp_guess example_number_sequence = Inl TypeError
   \<and> tic_guess example_number_sequence = Inr 6"
proof -
  have h: "deconvoluted_peak_set example_number_sequence = AttrMissing"
    "peak_set example_number_sequence = AttrMissing"
    "arrays example_number_sequence = AttrMissing"
    "elements example_number_sequence = Some (map Number (1 # [3, 2]))"
    by (simp_all add: example_number_sequence_def)
  from generic_numbers_tic_sums_bp_fails [OF h] show ?thesis by simp
qed

end
